theory Spec2Isabelle
  imports Main
begin

section \<open>The user-record service of golang-lambda\<close>

text \<open>
  A shallow embedding of package \<open>user\<close> (FetchUser, FetchAllUsers, CreateUser,
  UpdateUser, DeleteUser) and of package \<open>handlers\<close>. A Go function returning
  \<open>(*T, error)\<close> returns a pair of options here (\<open>None\<close> is \<open>nil\<close>), a nil-pointer
  dereference is the outcome \<open>Panic\<close>, and the store client is a record of operations
  that thread a state of any type \<open>'s\<close>: the state after a service call tells which
  store calls were made.
\<close>

subsection \<open>Data\<close>

text \<open>An \<open>error\<close> made by \<open>errors.New\<close> is its message.\<close>

type_synonym error = string

record User =
  Email :: string
  FirstName :: string
  LastName :: string

definition ErrorCouldNotDynamoPutItem :: string where
  "ErrorCouldNotDynamoPutItem = ''could not update record''"

definition ErrorCouldNotMarshalItem :: string where
  "ErrorCouldNotMarshalItem = ''fail to marshal record''"

definition ErrorFailedToDeleteRecord :: string where
  "ErrorFailedToDeleteRecord = ''failed to delete record''"

definition ErrorFailedToFetchRecord :: string where
  "ErrorFailedToFetchRecord = ''failed to fetch record''"

definition ErrorFailedToUnmarshalRecord :: string where
  "ErrorFailedToUnmarshalRecord = ''failed to unmarshal record''"

definition ErrorInvalidEmail :: string where
  "ErrorInvalidEmail = ''invalid email''"

definition ErrorInvalidUserData :: string where
  "ErrorInvalidUserData = ''invalid user data''"

definition ErrorUserAlreadyExists :: string where
  "ErrorUserAlreadyExists = ''user already exists''"

text \<open>What a call does: it panics, or it returns its result values.\<close>

datatype 'a outcome = Panic | Return 'a

subsection \<open>The store interface\<close>

text \<open>
  \<open>dynamodb.AttributeValue\<close>, restricted to its scalar kinds: a string (\<open>S\<close>), a
  number held as its text (\<open>N\<close>), a boolean (\<open>BOOL\<close>) and the null marker
  (\<open>NULL: true\<close>). Binaries, sets, lists and maps are left out.
\<close>

datatype AttributeValue = AV_S string | AV_N string | AV_BOOL bool | AV_NULL

type_synonym AttributeMap = "string \<rightharpoonup> AttributeValue"

record GetItemInput =
  GetItem_Key :: AttributeMap
  GetItem_TableName :: string

record GetItemOutput =
  Item :: AttributeMap

record ScanInput =
  Scan_TableName :: string

record ScanOutput =
  Items :: "AttributeMap list"

record PutItemInput =
  PutItem_Item :: AttributeMap
  PutItem_TableName :: string

record DeleteItemInput =
  DeleteItem_Key :: AttributeMap
  DeleteItem_TableName :: string

text \<open>The outputs of PutItem and DeleteItem are never read by the service.\<close>

datatype PutItemOutput = PutItemOutput

datatype DeleteItemOutput = DeleteItemOutput

text \<open>
  \<open>dynamodbiface.DynamoDBAPI\<close>, the four methods the service calls. Each returns the
  Go pair (output pointer, error) and the store's next state.
\<close>

record 's DynamoDBAPI =
  GetItem :: "GetItemInput \<Rightarrow> 's \<Rightarrow> (GetItemOutput option \<times> error option) \<times> 's"
  PutItem :: "PutItemInput \<Rightarrow> 's \<Rightarrow> (PutItemOutput option \<times> error option) \<times> 's"
  Scan :: "ScanInput \<Rightarrow> 's \<Rightarrow> (ScanOutput option \<times> error option) \<times> 's"
  DeleteItem :: "DeleteItemInput \<Rightarrow> 's \<Rightarrow> (DeleteItemOutput option \<times> error option) \<times> 's"

text \<open>\<open>events.APIGatewayProxyRequest\<close>, the fields the service reads.\<close>

record APIGatewayProxyRequest =
  Body :: string
  QueryStringParameters :: "string \<rightharpoonup> string"

subsection \<open>The attribute codec of the SDK\<close>

text \<open>
  \<open>dynamodbattribute\<close> is a library of the AWS SDK; its behaviour on a struct of three
  string fields tagged \<open>email\<close>, \<open>firstName\<close>, \<open>lastName\<close> is written out here.
  Decoding into a string field: \<open>S\<close> sets the field, \<open>N\<close> sets it to the text of the
  number, \<open>NULL\<close> sets it to the zero value, \<open>BOOL\<close> is an UnmarshalTypeError. A key
  of the map that names no field is skipped, a field with no key keeps its value. Keys
  are matched by their exact name; the decoder's fallback, which also accepts a key that
  differs from the field's tag only in the case of its letters, is left out.
\<close>

definition ErrUnmarshalType :: string where
  "ErrUnmarshalType = ''dynamodbattribute: cannot unmarshal bool into Go value of type string''"

fun decodeString :: "AttributeValue option \<Rightarrow> string \<Rightarrow> string \<times> error option" where
  "decodeString None v = (v, None)"
| "decodeString (Some (AV_S s)) v = (s, None)"
| "decodeString (Some (AV_N n)) v = (n, None)"
| "decodeString (Some AV_NULL) v = ([], None)"
| "decodeString (Some (AV_BOOL b)) v = (v, Some ErrUnmarshalType)"

definition UnmarshalMap :: "AttributeMap \<Rightarrow> User \<Rightarrow> User \<times> error option" where
  "UnmarshalMap m out =
     (case decodeString (m ''email'') (Email out) of
        (e, Some err) \<Rightarrow> (out, Some err)
      | (e, None) \<Rightarrow>
          (case decodeString (m ''firstName'') (FirstName out) of
             (f, Some err) \<Rightarrow> (out\<lparr>Email := e\<rparr>, Some err)
           | (f, None) \<Rightarrow>
               (case decodeString (m ''lastName'') (LastName out) of
                  (l, Some err) \<Rightarrow> (out\<lparr>Email := e, FirstName := f\<rparr>, Some err)
                | (l, None) \<Rightarrow> (\<lparr>Email = e, FirstName = f, LastName = l\<rparr>, None))))"

text \<open>\<open>new(User)\<close>: every field is the empty string.\<close>

definition new_User :: User where
  "new_User = \<lparr>Email = [], FirstName = [], LastName = []\<rparr>"

text \<open>
  \<open>UnmarshalListOfMaps\<close> into a slice of User: one element per map, in order, each
  decoded into a zero User; the first failing element is the error of the call.
\<close>

fun UnmarshalListOfMaps :: "AttributeMap list \<Rightarrow> User list \<times> error option" where
  "UnmarshalListOfMaps [] = ([], None)"
| "UnmarshalListOfMaps (m # ms) =
     (case UnmarshalMap m new_User of
        (u, Some err) \<Rightarrow> ([u], Some err)
      | (u, None) \<Rightarrow>
          (case UnmarshalListOfMaps ms of (us, err) \<Rightarrow> (u # us, err)))"

text \<open>
  \<open>MarshalMap\<close> of a User: an empty string is encoded as \<open>NULL\<close>, any other as \<open>S\<close>;
  a struct of strings never fails to encode.
\<close>

definition encodeString :: "string \<Rightarrow> AttributeValue" where
  "encodeString s = (if s = [] then AV_NULL else AV_S s)"

definition MarshalMap :: "User \<Rightarrow> AttributeMap \<times> error option" where
  "MarshalMap u =
     ([''email'' \<mapsto> encodeString (Email u),
       ''firstName'' \<mapsto> encodeString (FirstName u),
       ''lastName'' \<mapsto> encodeString (LastName u)], None)"

subsection \<open>Package user\<close>

definition FetchUser ::
  "string \<Rightarrow> string \<Rightarrow> 's DynamoDBAPI \<Rightarrow> 's \<Rightarrow> (User option \<times> error option) outcome \<times> 's" where
  "FetchUser email tableName dynaClient s =
     (let input = \<lparr>GetItem_Key = [''email'' \<mapsto> AV_S email], GetItem_TableName = tableName\<rparr>
      in case GetItem dynaClient input s of
           ((result, Some err), s1) \<Rightarrow> (Return (None, Some ErrorFailedToFetchRecord), s1)
         | ((None, None), s1) \<Rightarrow> (Panic, s1)
         | ((Some r, None), s1) \<Rightarrow>
             (case UnmarshalMap (Item r) new_User of
                (item, Some err) \<Rightarrow> (Return (None, Some ErrorFailedToUnmarshalRecord), s1)
              | (item, None) \<Rightarrow> (Return (Some item, None), s1)))"

definition FetchAllUsers ::
  "string \<Rightarrow> 's DynamoDBAPI \<Rightarrow> 's \<Rightarrow> (User list option \<times> error option) outcome \<times> 's" where
  "FetchAllUsers tableName dynaClient s =
     (let input = \<lparr>Scan_TableName = tableName\<rparr>
      in case Scan dynaClient input s of
           ((result, Some err), s1) \<Rightarrow> (Return (None, Some ErrorFailedToFetchRecord), s1)
         | ((None, None), s1) \<Rightarrow> (Panic, s1)
         | ((Some r, None), s1) \<Rightarrow>
             (case UnmarshalListOfMaps (Items r) of
                (item, Some err) \<Rightarrow> (Return (None, Some ErrorFailedToUnmarshalRecord), s1)
              | (item, None) \<Rightarrow> (Return (Some item, None), s1)))"

text \<open>
  The save step shared by the text of CreateUser and UpdateUser (lines 90-104 and
  123-138): marshal, put, return the parsed record.
\<close>

definition save_user ::
  "User \<Rightarrow> string \<Rightarrow> 's DynamoDBAPI \<Rightarrow> 's \<Rightarrow> (User option \<times> error option) outcome \<times> 's" where
  "save_user u tableName dynaClient s1 =
     (case MarshalMap u of
        (av, Some err) \<Rightarrow> (Return (None, Some ErrorCouldNotMarshalItem), s1)
      | (av, None) \<Rightarrow>
          (let input = \<lparr>PutItem_Item = av, PutItem_TableName = tableName\<rparr>
           in case PutItem dynaClient input s1 of
                ((out, Some err), s2) \<Rightarrow> (Return (None, Some ErrorCouldNotDynamoPutItem), s2)
              | ((out, None), s2) \<Rightarrow> (Return (Some u, None), s2)))"

text \<open>
  \<open>json.Unmarshal\<close> and \<open>validators.IsEmailValid\<close> are parameters: the first gives
  the value of \<open>u\<close> after decoding the body into a zero User and the error of the call,
  the second is the email-format check of package validators.
\<close>

definition CreateUser ::
  "(string \<Rightarrow> User \<times> error option) \<Rightarrow> (string \<Rightarrow> bool) \<Rightarrow> APIGatewayProxyRequest \<Rightarrow> string \<Rightarrow>
   's DynamoDBAPI \<Rightarrow> 's \<Rightarrow> (User option \<times> error option) outcome \<times> 's" where
  "CreateUser json_Unmarshal IsEmailValid req tableName dynaClient s =
     (case json_Unmarshal (Body req) of
        (u, Some err) \<Rightarrow> (Return (None, Some ErrorInvalidUserData), s)
      | (u, None) \<Rightarrow>
          if \<not> IsEmailValid (Email u) then (Return (None, Some ErrorInvalidEmail), s)
          else
            (case FetchUser (Email u) tableName dynaClient s of
               (Panic, s1) \<Rightarrow> (Panic, s1)
             | (Return (existingUser, Some err), s1) \<Rightarrow>
                 (Return (None, Some ErrorFailedToFetchRecord), s1)
             | (Return (existingUser, None), s1) \<Rightarrow>
                 if (case existingUser of None \<Rightarrow> False | Some e \<Rightarrow> length (Email e) \<noteq> 0)
                 then (Return (None, Some ErrorUserAlreadyExists), s1)
                 else save_user u tableName dynaClient s1))"

text \<open>
  The condition of line 119, \<open>existingUser == nil && len(existingUser.Email) == 0\<close>:
  on a non-nil pointer the first conjunct is false and the second is not evaluated; on
  nil the first is true and the second dereferences nil.
\<close>

definition update_condition :: "User option \<Rightarrow> bool outcome" where
  "update_condition existingUser =
     (case existingUser of
        Some e \<Rightarrow> Return False
      | None \<Rightarrow> Panic)"

definition UpdateUser ::
  "(string \<Rightarrow> User \<times> error option) \<Rightarrow> APIGatewayProxyRequest \<Rightarrow> string \<Rightarrow>
   's DynamoDBAPI \<Rightarrow> 's \<Rightarrow> (User option \<times> error option) outcome \<times> 's" where
  "UpdateUser json_Unmarshal req tableName dynaClient s =
     (case json_Unmarshal (Body req) of
        (u, Some err) \<Rightarrow> (Return (None, Some ErrorInvalidUserData), s)
      | (u, None) \<Rightarrow>
          (case FetchUser (Email u) tableName dynaClient s of
             (Panic, s1) \<Rightarrow> (Panic, s1)
           | (Return (existingUser, Some err), s1) \<Rightarrow> (Return (None, Some err), s1)
           | (Return (existingUser, None), s1) \<Rightarrow>
               (case update_condition existingUser of
                  Panic \<Rightarrow> (Panic, s1)
                | Return True \<Rightarrow> (Return (None, Some ErrorUserAlreadyExists), s1)
                | Return False \<Rightarrow> save_user u tableName dynaClient s1)))"

text \<open>A Go map read of a missing key gives the empty string.\<close>

definition DeleteUser ::
  "APIGatewayProxyRequest \<Rightarrow> string \<Rightarrow> 's DynamoDBAPI \<Rightarrow> 's \<Rightarrow> error option \<times> 's" where
  "DeleteUser req tableName dynaClient s =
     (let email = (case QueryStringParameters req ''email'' of None \<Rightarrow> [] | Some e \<Rightarrow> e);
          input = \<lparr>DeleteItem_Key = [''email'' \<mapsto> AV_S email], DeleteItem_TableName = tableName\<rparr>
      in case DeleteItem dynaClient input s of
           ((out, Some err), s1) \<Rightarrow> (Some ErrorFailedToDeleteRecord, s1)
         | ((out, None), s1) \<Rightarrow> (None, s1))"

subsection \<open>Package handlers\<close>

definition StatusOK :: nat where
  "StatusOK = 200"

definition StatusCreated :: nat where
  "StatusCreated = 201"

definition StatusBadRequest :: nat where
  "StatusBadRequest = 400"

definition StatusMethodNotAllowed :: nat where
  "StatusMethodNotAllowed = 405"

definition StatusInternalServerError :: nat where
  "StatusInternalServerError = 500"

definition ErrorMethodNotAllowed :: string where
  "ErrorMethodNotAllowed = ''Error Method Not Allowed''"

text \<open>The values the handlers pass as the body of a response.\<close>

datatype body =
    ErrorBody string
  | UserBody "User option"
  | UsersBody "User list option"
  | TextBody string
  | NilBody

record APIGatewayProxyResponse =
  StatusCode :: nat
  ResponseBody :: body

text \<open>
  Modelled from the spec: \<open>apiResponse\<close>, the response builder of package handlers,
  whose file is not among the sources. The spec has the boundary answer with the status
  code it is given and the outcome as the JSON body; the tests of the handlers read the
  status passed by the handler back from \<open>resp.StatusCode\<close>. The body is kept as the
  value passed, not as its JSON text.
\<close>

definition apiResponse ::
  "nat \<Rightarrow> body \<Rightarrow> APIGatewayProxyResponse option \<times> error option" where
  "apiResponse status b = (Some \<lparr>StatusCode = status, ResponseBody = b\<rparr>, None)"

definition GetUser ::
  "APIGatewayProxyRequest \<Rightarrow> string \<Rightarrow> 's DynamoDBAPI \<Rightarrow> 's \<Rightarrow>
   (APIGatewayProxyResponse option \<times> error option) outcome \<times> 's" where
  "GetUser req tableName dynaClient s =
     (let email = (case QueryStringParameters req ''email'' of None \<Rightarrow> [] | Some e \<Rightarrow> e)
      in if length email > 0 then
           (case FetchUser email tableName dynaClient s of
              (Panic, s1) \<Rightarrow> (Panic, s1)
            | (Return (result, Some err), s1) \<Rightarrow>
                (Return (apiResponse StatusInternalServerError (ErrorBody err)), s1)
            | (Return (result, None), s1) \<Rightarrow>
                (Return (apiResponse StatusOK (UserBody result)), s1))
         else
           (case FetchAllUsers tableName dynaClient s of
              (Panic, s1) \<Rightarrow> (Panic, s1)
            | (Return (result, Some err), s1) \<Rightarrow>
                (Return (apiResponse StatusInternalServerError (ErrorBody err)), s1)
            | (Return (result, None), s1) \<Rightarrow>
                (Return (apiResponse StatusOK (UsersBody result)), s1)))"

definition handlers_CreateUser ::
  "(string \<Rightarrow> User \<times> error option) \<Rightarrow> (string \<Rightarrow> bool) \<Rightarrow> APIGatewayProxyRequest \<Rightarrow> string \<Rightarrow>
   's DynamoDBAPI \<Rightarrow> 's \<Rightarrow> (APIGatewayProxyResponse option \<times> error option) outcome \<times> 's" where
  "handlers_CreateUser json_Unmarshal IsEmailValid req tableName dynaClient s =
     (case CreateUser json_Unmarshal IsEmailValid req tableName dynaClient s of
        (Panic, s1) \<Rightarrow> (Panic, s1)
      | (Return (newUser, Some err), s1) \<Rightarrow>
          (Return (apiResponse StatusInternalServerError (ErrorBody err)), s1)
      | (Return (newUser, None), s1) \<Rightarrow>
          (Return (apiResponse StatusCreated (UserBody newUser)), s1))"

definition handlers_UpdateUser ::
  "(string \<Rightarrow> User \<times> error option) \<Rightarrow> APIGatewayProxyRequest \<Rightarrow> string \<Rightarrow>
   's DynamoDBAPI \<Rightarrow> 's \<Rightarrow> (APIGatewayProxyResponse option \<times> error option) outcome \<times> 's" where
  "handlers_UpdateUser json_Unmarshal req tableName dynaClient s =
     (case UpdateUser json_Unmarshal req tableName dynaClient s of
        (Panic, s1) \<Rightarrow> (Panic, s1)
      | (Return (newUser, Some err), s1) \<Rightarrow>
          (Return (apiResponse StatusInternalServerError (ErrorBody err)), s1)
      | (Return (newUser, None), s1) \<Rightarrow>
          (Return (apiResponse StatusOK (UserBody newUser)), s1))"

definition handlers_DeleteUser ::
  "APIGatewayProxyRequest \<Rightarrow> string \<Rightarrow> 's DynamoDBAPI \<Rightarrow> 's \<Rightarrow>
   (APIGatewayProxyResponse option \<times> error option) \<times> 's" where
  "handlers_DeleteUser req tableName dynaClient s =
     (case DeleteUser req tableName dynaClient s of
        (Some err, s1) \<Rightarrow> (apiResponse StatusBadRequest (ErrorBody err), s1)
      | (None, s1) \<Rightarrow> (apiResponse StatusOK NilBody, s1))"

definition UnhandledMethod :: "APIGatewayProxyResponse option \<times> error option" where
  "UnhandledMethod = apiResponse StatusMethodNotAllowed (TextBody ErrorMethodNotAllowed)"

subsection \<open>The mock client of the tests\<close>

text \<open>
  \<open>mockDynamoDBClient\<close> of user\_test.go answers every call with the values it was
  built with. Here it also appends each call to a log, which is the state of the store.
\<close>

datatype call =
    GetItemCall GetItemInput
  | PutItemCall PutItemInput
  | ScanCall ScanInput
  | DeleteItemCall DeleteItemInput

record mockDynamoDBClient =
  deleteErr :: "error option"
  fetchedUser :: "GetItemOutput option"
  fetchErr :: "error option"
  putErr :: "error option"
  scanRes :: "ScanOutput option"
  scanErr :: "error option"

definition mockDb :: "mockDynamoDBClient \<Rightarrow> call list DynamoDBAPI" where
  "mockDb m =
     \<lparr>GetItem = (\<lambda>input log. ((fetchedUser m, fetchErr m), log @ [GetItemCall input])),
      PutItem = (\<lambda>input log. ((None, putErr m), log @ [PutItemCall input])),
      Scan = (\<lambda>input log. ((scanRes m, scanErr m), log @ [ScanCall input])),
      DeleteItem = (\<lambda>input log. ((None, deleteErr m), log @ [DeleteItemCall input]))\<rparr>"

text \<open>\<open>&mockDynamoDBClient{}\<close>: every field nil.\<close>

definition mock_zero :: mockDynamoDBClient where
  "mock_zero =
     \<lparr>deleteErr = None, fetchedUser = None, fetchErr = None, putErr = None,
      scanRes = None, scanErr = None\<rparr>"

text \<open>
  Stand-ins for the two parameters on concrete inputs: a decoder that knows the bodies
  of the tests by name, and a format check that asks for an \<open>@\<close>.
\<close>

definition alan_oliver :: User where
  "alan_oliver = \<lparr>Email = ''alan.oliver@ecs.co.uk'', FirstName = ''Alan'', LastName = ''Oliver''\<rparr>"

definition invalid_email_user :: User where
  "invalid_email_user = \<lparr>Email = ''invalid-email'', FirstName = ''test'', LastName = ''test''\<rparr>"

definition test_Unmarshal :: "string \<Rightarrow> User \<times> error option" where
  "test_Unmarshal b =
     (if b = ''alan.oliver'' then (alan_oliver, None)
      else if b = ''invalid-email'' then (invalid_email_user, None)
      else (new_User, Some ''invalid character''))"

definition test_IsEmailValid :: "string \<Rightarrow> bool" where
  "test_IsEmailValid e = (CHR ''@'' \<in> set e)"

text \<open>The item of a stored user: each field a string attribute.\<close>

definition user_item :: "User \<Rightarrow> AttributeMap" where
  "user_item u =
     [''email'' \<mapsto> AV_S (Email u), ''firstName'' \<mapsto> AV_S (FirstName u),
      ''lastName'' \<mapsto> AV_S (LastName u)]"

text \<open>Clients built as the tests build them.\<close>

definition mock_found :: mockDynamoDBClient where
  "mock_found = mock_zero\<lparr>fetchedUser := Some \<lparr>Item = user_item alan_oliver\<rparr>\<rparr>"

definition mock_empty :: mockDynamoDBClient where
  "mock_empty = mock_zero\<lparr>fetchedUser := Some \<lparr>Item = Map.empty\<rparr>\<rparr>"

definition mock_fetch_fails :: mockDynamoDBClient where
  "mock_fetch_fails = mock_zero\<lparr>fetchErr := Some ''fetch error''\<rparr>"

text \<open>An item whose email attribute is a boolean, and clients for the scan and the delete.\<close>

definition bad_item :: AttributeMap where
  "bad_item = [''email'' \<mapsto> AV_BOOL True]"

definition mock_bad_scan :: mockDynamoDBClient where
  "mock_bad_scan = mock_zero\<lparr>scanRes := Some \<lparr>Items = [bad_item]\<rparr>\<rparr>"

definition alan_shearer :: User where
  "alan_shearer = \<lparr>Email = ''alan.shearer@ecs.co.uk'', FirstName = ''Alan'', LastName = ''Shearer''\<rparr>"

definition mock_two_users :: mockDynamoDBClient where
  "mock_two_users = mock_zero\<lparr>scanRes := Some \<lparr>Items = [user_item alan_shearer, user_item alan_oliver]\<rparr>\<rparr>"

definition mock_scan_fails :: mockDynamoDBClient where
  "mock_scan_fails = mock_zero\<lparr>scanErr := Some ''scan error''\<rparr>"

definition mock_delete_fails :: mockDynamoDBClient where
  "mock_delete_fails = mock_zero\<lparr>deleteErr := Some ''delete error''\<rparr>"

definition mock_bad_item :: mockDynamoDBClient where
  "mock_bad_item = mock_zero\<lparr>fetchedUser := Some \<lparr>Item = bad_item\<rparr>\<rparr>"

definition mock_put_fails :: mockDynamoDBClient where
  "mock_put_fails = mock_found\<lparr>putErr := Some ''update error''\<rparr>"

section \<open>Properties\<close>

lemma error_messages_distinct:
  "ErrorUserAlreadyExists \<noteq> ErrorInvalidUserData"
  "ErrorUserAlreadyExists \<noteq> ErrorInvalidEmail"
  "ErrorUserAlreadyExists \<noteq> ErrorFailedToFetchRecord"
  "ErrorUserAlreadyExists \<noteq> ErrorFailedToUnmarshalRecord"
  "ErrorUserAlreadyExists \<noteq> ErrorCouldNotMarshalItem"
  "ErrorUserAlreadyExists \<noteq> ErrorCouldNotDynamoPutItem"
  "ErrorInvalidEmail \<noteq> ErrorFailedToFetchRecord"
  "ErrorInvalidEmail \<noteq> ErrorFailedToUnmarshalRecord"
  "ErrorInvalidEmail \<noteq> ErrorCouldNotMarshalItem"
  "ErrorInvalidEmail \<noteq> ErrorCouldNotDynamoPutItem"
  "ErrorInvalidEmail \<noteq> ErrorInvalidUserData"
  by (simp_all add: ErrorUserAlreadyExists_def ErrorInvalidUserData_def ErrorInvalidEmail_def
      ErrorFailedToFetchRecord_def ErrorFailedToUnmarshalRecord_def ErrorCouldNotMarshalItem_def
      ErrorCouldNotDynamoPutItem_def)

lemma save_user_cases:
  "save_user u tableName dynaClient s1 =
     (case PutItem dynaClient \<lparr>PutItem_Item = fst (MarshalMap u), PutItem_TableName = tableName\<rparr> s1 of
        ((out, Some err), s2) \<Rightarrow> (Return (None, Some ErrorCouldNotDynamoPutItem), s2)
      | ((out, None), s2) \<Rightarrow> (Return (Some u, None), s2))"
  by (simp add: save_user_def MarshalMap_def)

subsection \<open>Facts about FetchUser and the save step\<close>

lemma FetchUser_no_error_non_nil:
  "FetchUser email tableName dynaClient s = (Return (existingUser, None), s1) \<Longrightarrow>
     \<exists>item. existingUser = Some item"
  by (auto simp: FetchUser_def Let_def split: prod.splits option.splits)

lemma FetchUser_error_values:
  "FetchUser email tableName dynaClient s = (Return (x, Some err), s1) \<Longrightarrow>
     x = None \<and> (err = ErrorFailedToFetchRecord \<or> err = ErrorFailedToUnmarshalRecord)"
  by (auto simp: FetchUser_def Let_def split: prod.splits option.splits)

lemma FetchUser_GetItem_error:
  "GetItem dynaClient \<lparr>GetItem_Key = [''email'' \<mapsto> AV_S email], GetItem_TableName = tableName\<rparr> s
     = ((out, Some e), s1) \<Longrightarrow>
   FetchUser email tableName dynaClient s = (Return (None, Some ErrorFailedToFetchRecord), s1)"
  by (simp add: FetchUser_def split: option.splits)

lemma FetchUser_GetItem_ok:
  "GetItem dynaClient \<lparr>GetItem_Key = [''email'' \<mapsto> AV_S email], GetItem_TableName = tableName\<rparr> s
     = ((Some r, None), s1) \<Longrightarrow>
   FetchUser email tableName dynaClient s =
     (case UnmarshalMap (Item r) new_User of
        (item, Some err) \<Rightarrow> (Return (None, Some ErrorFailedToUnmarshalRecord), s1)
      | (item, None) \<Rightarrow> (Return (Some item, None), s1))"
  by (simp add: FetchUser_def split: option.splits)

lemma save_user_not_already_exists:
  "fst (save_user u tableName dynaClient s1) \<noteq> Return (None, Some ErrorUserAlreadyExists)"
  by (auto simp: save_user_cases error_messages_distinct [symmetric]
      split: prod.splits option.splits)

lemma UnmarshalMap_user_item: "UnmarshalMap (user_item u) out = (u, None)"
  by (simp add: UnmarshalMap_def user_item_def)

lemma UnmarshalMap_empty: "UnmarshalMap Map.empty out = (out, None)"
  by (simp add: UnmarshalMap_def)

lemma FetchUser_mock_found:
  "FetchUser email tableName (mockDb mock_found) log =
     (Return (Some alan_oliver, None),
      log @ [GetItemCall \<lparr>GetItem_Key = [''email'' \<mapsto> AV_S email], GetItem_TableName = tableName\<rparr>])"
  by (simp add: FetchUser_def mockDb_def mock_found_def mock_zero_def UnmarshalMap_user_item)

lemma FetchUser_mock_empty:
  "FetchUser email tableName (mockDb mock_empty) log =
     (Return (Some new_User, None),
      log @ [GetItemCall \<lparr>GetItem_Key = [''email'' \<mapsto> AV_S email], GetItem_TableName = tableName\<rparr>])"
  by (simp add: FetchUser_def mockDb_def mock_empty_def mock_zero_def UnmarshalMap_empty)

lemma save_user_mock_ok:
  "putErr m = None \<Longrightarrow>
   save_user u tableName (mockDb m) log =
     (Return (Some u, None),
      log @ [PutItemCall \<lparr>PutItem_Item = fst (MarshalMap u), PutItem_TableName = tableName\<rparr>])"
  by (simp add: save_user_cases mockDb_def)

lemma FetchUser_single_GetItem:
  "snd (FetchUser email tableName dynaClient s) =
   snd (GetItem dynaClient \<lparr>GetItem_Key = [''email'' \<mapsto> AV_S email], GetItem_TableName = tableName\<rparr> s)"
  by (auto simp: FetchUser_def split: prod.splits option.splits)

lemma UnmarshalListOfMaps_ok:
  "\<forall>m \<in> set ms. snd (UnmarshalMap m new_User) = None \<Longrightarrow>
   UnmarshalListOfMaps ms = (map (\<lambda>m. fst (UnmarshalMap m new_User)) ms, None)"
proof (induction ms)
  case Nil
  then show ?case by simp
next
  case (Cons m ms)
  then show ?case
    by (cases "UnmarshalMap m new_User") simp
qed

lemma UnmarshalListOfMaps_fail:
  "\<exists>m \<in> set ms. snd (UnmarshalMap m new_User) \<noteq> None \<Longrightarrow>
   \<exists>us e. UnmarshalListOfMaps ms = (us, Some e)"
proof (induction ms)
  case Nil
  then show ?case by simp
next
  case (Cons m ms)
  obtain u e where um: "UnmarshalMap m new_User = (u, e)"
    by (cases "UnmarshalMap m new_User")
  show ?case
  proof (cases e)
    case None
    with Cons um obtain us e' where "UnmarshalListOfMaps ms = (us, Some e')"
      by auto
    with um None show ?thesis by simp
  next
    case (Some a)
    with um show ?thesis by simp
  qed
qed

lemma UnmarshalListOfMaps_user_items:
  "UnmarshalListOfMaps (map user_item us) = (us, None)"
  by (induction us) (simp_all add: UnmarshalMap_user_item)

lemma FetchAllUsers_Scan_ok:
  "Scan dynaClient \<lparr>Scan_TableName = tableName\<rparr> s = ((Some r, None), s1) \<Longrightarrow>
   FetchAllUsers tableName dynaClient s =
     (case UnmarshalListOfMaps (Items r) of
        (item, Some err) \<Rightarrow> (Return (None, Some ErrorFailedToUnmarshalRecord), s1)
      | (item, None) \<Rightarrow> (Return (Some item, None), s1))"
  by (simp add: FetchAllUsers_def split: option.splits)

lemma FetchUser_GetItem_unmarshal_error:
  "GetItem dynaClient \<lparr>GetItem_Key = [''email'' \<mapsto> AV_S email], GetItem_TableName = tableName\<rparr> s
     = ((Some r, None), s1) \<Longrightarrow>
   snd (UnmarshalMap (Item r) new_User) = Some e \<Longrightarrow>
   FetchUser email tableName dynaClient s = (Return (None, Some ErrorFailedToUnmarshalRecord), s1)"
  by (cases "UnmarshalMap (Item r) new_User") (simp add: FetchUser_GetItem_ok)

lemma UpdateUser_not_already_exists:
  "fst (UpdateUser json_Unmarshal req tableName dynaClient s)
     \<noteq> Return (None, Some ErrorUserAlreadyExists)"
proof -
  obtain u de where d: "json_Unmarshal (Body req) = (u, de)"
    by (cases "json_Unmarshal (Body req)")
  obtain r s2 where f: "FetchUser (Email u) tableName dynaClient s = (r, s2)"
    by (cases "FetchUser (Email u) tableName dynaClient s")
  show ?thesis
  proof (cases de)
    case (Some a)
    with d show ?thesis
      by (simp add: UpdateUser_def error_messages_distinct [symmetric])
  next
    case None
    show ?thesis
    proof (cases r)
      case Panic
      with d None f show ?thesis by (simp add: UpdateUser_def)
    next
      case (Return p)
      obtain x e' where p: "p = (x, e')" by (cases p)
      show ?thesis
      proof (cases e')
        case (Some e)
        have "FetchUser (Email u) tableName dynaClient s = (Return (x, Some e), s2)"
          using f Return p Some by simp
        from FetchUser_error_values [OF this]
        have "e = ErrorFailedToFetchRecord \<or> e = ErrorFailedToUnmarshalRecord" ..
        with d None f Return p Some show ?thesis
          by (auto simp: UpdateUser_def error_messages_distinct)
      next
        case n: None
        have "FetchUser (Email u) tableName dynaClient s = (Return (x, None), s2)"
          using f Return p n by simp
        from FetchUser_no_error_non_nil [OF this] obtain item where "x = Some item" ..
        with d None f Return p n show ?thesis
          using save_user_not_already_exists [of u tableName dynaClient s2]
          by (simp add: UpdateUser_def update_condition_def)
      qed
    qed
  qed
qed

subsection \<open>Update: the existence check\<close>

text \<open>
  C1, as amended. UpdateUser never returns \<open>user already exists\<close>, on any request.
  When the body of an update request decodes and FetchUser returns with a nil error
  (neither a store error nor an unmarshal error), UpdateUser goes on to the put,
  whatever record was fetched (empty or populated): its result is the parsed record when
  the put succeeds and \<open>could not update record\<close> when it fails, in the state the one
  PutItem call leaves. When GetItem succeeds with an item that does not unmarshal,
  UpdateUser returns \<open>failed to unmarshal record\<close> and writes nothing.
\<close>

theorem UpdateUser_existence_check_never_blocks:
  "fst (UpdateUser json_Unmarshal req tableName dynaClient s)
     \<noteq> Return (None, Some ErrorUserAlreadyExists)
   \<and> (json_Unmarshal (Body req) = (u, None)
      \<and> FetchUser (Email u) tableName dynaClient s = (Return (existingUser, None), s1) \<longrightarrow>
      UpdateUser json_Unmarshal req tableName dynaClient s =
        (case PutItem dynaClient
                \<lparr>PutItem_Item = fst (MarshalMap u), PutItem_TableName = tableName\<rparr> s1 of
           ((out, Some err), s2) \<Rightarrow> (Return (None, Some ErrorCouldNotDynamoPutItem), s2)
         | ((out, None), s2) \<Rightarrow> (Return (Some u, None), s2)))
   \<and> (json_Unmarshal (Body req) = (u, None)
      \<and> GetItem dynaClient
           \<lparr>GetItem_Key = [''email'' \<mapsto> AV_S (Email u)], GetItem_TableName = tableName\<rparr> s
         = ((Some r, None), s1)
      \<and> snd (UnmarshalMap (Item r) new_User) = Some e \<longrightarrow>
      UpdateUser json_Unmarshal req tableName dynaClient s
        = (Return (None, Some ErrorFailedToUnmarshalRecord), s1))"
proof (intro conjI impI)
  show "fst (UpdateUser json_Unmarshal req tableName dynaClient s)
     \<noteq> Return (None, Some ErrorUserAlreadyExists)"
    by (rule UpdateUser_not_already_exists)
next
  assume a: "json_Unmarshal (Body req) = (u, None)
      \<and> FetchUser (Email u) tableName dynaClient s = (Return (existingUser, None), s1)"
  then have f: "FetchUser (Email u) tableName dynaClient s = (Return (existingUser, None), s1)" ..
  from FetchUser_no_error_non_nil [OF f] obtain item where "existingUser = Some item" ..
  with a have "UpdateUser json_Unmarshal req tableName dynaClient s = save_user u tableName dynaClient s1"
    by (simp add: UpdateUser_def update_condition_def)
  then show "UpdateUser json_Unmarshal req tableName dynaClient s =
        (case PutItem dynaClient
                \<lparr>PutItem_Item = fst (MarshalMap u), PutItem_TableName = tableName\<rparr> s1 of
           ((out, Some err), s2) \<Rightarrow> (Return (None, Some ErrorCouldNotDynamoPutItem), s2)
         | ((out, None), s2) \<Rightarrow> (Return (Some u, None), s2))"
    by (simp add: save_user_cases [symmetric])
next
  assume a: "json_Unmarshal (Body req) = (u, None)
      \<and> GetItem dynaClient
           \<lparr>GetItem_Key = [''email'' \<mapsto> AV_S (Email u)], GetItem_TableName = tableName\<rparr> s
         = ((Some r, None), s1)
      \<and> snd (UnmarshalMap (Item r) new_User) = Some e"
  then have "FetchUser (Email u) tableName dynaClient s
               = (Return (None, Some ErrorFailedToUnmarshalRecord), s1)"
    by (simp add: FetchUser_GetItem_unmarshal_error)
  with a show "UpdateUser json_Unmarshal req tableName dynaClient s
        = (Return (None, Some ErrorFailedToUnmarshalRecord), s1)"
    by (simp add: UpdateUser_def)
qed

theorem UpdateUser_existence_check_never_blocks_witness:
  "test_Unmarshal (Body \<lparr>Body = ''alan.oliver'', QueryStringParameters = Map.empty\<rparr>) = (alan_oliver, None)
   \<and> FetchUser (Email alan_oliver) ''test'' (mockDb mock_empty) [] =
       (Return (Some new_User, None),
        [GetItemCall \<lparr>GetItem_Key = [''email'' \<mapsto> AV_S (Email alan_oliver)], GetItem_TableName = ''test''\<rparr>])
   \<and> UpdateUser test_Unmarshal \<lparr>Body = ''alan.oliver'', QueryStringParameters = Map.empty\<rparr> ''test''
         (mockDb mock_empty) [] =
       (Return (Some alan_oliver, None),
        [GetItemCall \<lparr>GetItem_Key = [''email'' \<mapsto> AV_S (Email alan_oliver)], GetItem_TableName = ''test''\<rparr>,
         PutItemCall \<lparr>PutItem_Item = fst (MarshalMap alan_oliver), PutItem_TableName = ''test''\<rparr>])
   \<and> GetItem (mockDb mock_bad_item)
         \<lparr>GetItem_Key = [''email'' \<mapsto> AV_S (Email alan_oliver)], GetItem_TableName = ''test''\<rparr> [] =
       ((Some \<lparr>Item = bad_item\<rparr>, None),
        [GetItemCall \<lparr>GetItem_Key = [''email'' \<mapsto> AV_S (Email alan_oliver)], GetItem_TableName = ''test''\<rparr>])
   \<and> snd (UnmarshalMap (Item \<lparr>Item = bad_item\<rparr>) new_User) = Some ErrUnmarshalType
   \<and> UpdateUser test_Unmarshal \<lparr>Body = ''alan.oliver'', QueryStringParameters = Map.empty\<rparr> ''test''
         (mockDb mock_bad_item) [] =
       (Return (None, Some ErrorFailedToUnmarshalRecord),
        [GetItemCall \<lparr>GetItem_Key = [''email'' \<mapsto> AV_S (Email alan_oliver)], GetItem_TableName = ''test''\<rparr>])"
proof -
  let ?req = "\<lparr>Body = ''alan.oliver'', QueryStringParameters = Map.empty\<rparr>"
  let ?in = "\<lparr>GetItem_Key = [''email'' \<mapsto> AV_S (Email alan_oliver)], GetItem_TableName = ''test''\<rparr>"
  have h1: "test_Unmarshal (Body ?req) = (alan_oliver, None)"
    by (simp add: test_Unmarshal_def)
  have h2: "FetchUser (Email alan_oliver) ''test'' (mockDb mock_empty) [] =
       (Return (Some new_User, None), [GetItemCall ?in])"
    by (simp add: FetchUser_mock_empty)
  have h3: "GetItem (mockDb mock_bad_item) ?in [] = ((Some \<lparr>Item = bad_item\<rparr>, None), [GetItemCall ?in])"
    by (simp add: mockDb_def mock_bad_item_def mock_zero_def)
  have h4: "snd (UnmarshalMap (Item \<lparr>Item = bad_item\<rparr>) new_User) = Some ErrUnmarshalType"
    by (simp add: UnmarshalMap_def bad_item_def)
  have put: "PutItem (mockDb mock_empty) input log = ((None, None), log @ [PutItemCall input])" for input log
    by (simp add: mockDb_def mock_empty_def mock_zero_def)
  note a = UpdateUser_existence_check_never_blocks
      [where json_Unmarshal = test_Unmarshal and req = ?req and u = alan_oliver and tableName = "''test''"
         and dynaClient = "mockDb mock_empty" and s = "[]" and existingUser = "Some new_User"
         and ?s1.0 = "[GetItemCall ?in]"]
  note b = UpdateUser_existence_check_never_blocks
      [where json_Unmarshal = test_Unmarshal and req = ?req and u = alan_oliver and tableName = "''test''"
         and dynaClient = "mockDb mock_bad_item" and s = "[]" and r = "\<lparr>Item = bad_item\<rparr>"
         and e = ErrUnmarshalType and ?s1.0 = "[GetItemCall ?in]"]
  have A: "UpdateUser test_Unmarshal ?req ''test'' (mockDb mock_empty) [] =
       (Return (Some alan_oliver, None),
        [GetItemCall ?in,
         PutItemCall \<lparr>PutItem_Item = fst (MarshalMap alan_oliver), PutItem_TableName = ''test''\<rparr>])"
    using a h1 h2 by (simp add: put)
  have B: "UpdateUser test_Unmarshal ?req ''test'' (mockDb mock_bad_item) [] =
       (Return (None, Some ErrorFailedToUnmarshalRecord), [GetItemCall ?in])"
    using b h1 h3 h4 by simp
  show ?thesis
    using A B h1 h2 h3 h4 by simp
qed

text \<open>
  C1 as written, "the existence check returns without a store error, so the record is
  persisted and returned", fails twice. A GetItem that succeeds with an item whose email
  attribute is a boolean is no store error, yet UpdateUser returns
  \<open>failed to unmarshal record\<close> after the one GetItem call and makes no PutItem. And
  with a populated record fetched and a failing PutItem, UpdateUser returns
  \<open>could not update record\<close> and not the record.
\<close>

theorem UpdateUser_not_always_persisted_counterexample:
  "test_Unmarshal (Body \<lparr>Body = ''alan.oliver'', QueryStringParameters = Map.empty\<rparr>) = (alan_oliver, None)
   \<and> GetItem (mockDb mock_bad_item)
         \<lparr>GetItem_Key = [''email'' \<mapsto> AV_S ''alan.oliver@ecs.co.uk''], GetItem_TableName = ''test''\<rparr> [] =
       ((Some \<lparr>Item = [''email'' \<mapsto> AV_BOOL True]\<rparr>, None),
        [GetItemCall \<lparr>GetItem_Key = [''email'' \<mapsto> AV_S ''alan.oliver@ecs.co.uk''],
                       GetItem_TableName = ''test''\<rparr>])
   \<and> UpdateUser test_Unmarshal \<lparr>Body = ''alan.oliver'', QueryStringParameters = Map.empty\<rparr> ''test''
         (mockDb mock_bad_item) [] =
       (Return (None, Some ''failed to unmarshal record''),
        [GetItemCall \<lparr>GetItem_Key = [''email'' \<mapsto> AV_S ''alan.oliver@ecs.co.uk''],
                       GetItem_TableName = ''test''\<rparr>])
   \<and> fst (FetchUser ''alan.oliver@ecs.co.uk'' ''test'' (mockDb mock_put_fails) [])
       = Return (Some alan_oliver, None)
   \<and> UpdateUser test_Unmarshal \<lparr>Body = ''alan.oliver'', QueryStringParameters = Map.empty\<rparr> ''test''
         (mockDb mock_put_fails) [] =
       (Return (None, Some ''could not update record''),
        [GetItemCall \<lparr>GetItem_Key = [''email'' \<mapsto> AV_S ''alan.oliver@ecs.co.uk''],
                       GetItem_TableName = ''test''\<rparr>,
         PutItemCall \<lparr>PutItem_Item = [''email'' \<mapsto> AV_S ''alan.oliver@ecs.co.uk'',
                                       ''firstName'' \<mapsto> AV_S ''Alan'', ''lastName'' \<mapsto> AV_S ''Oliver''],
                       PutItem_TableName = ''test''\<rparr>])"
  by (simp add: UpdateUser_def FetchUser_def update_condition_def save_user_def MarshalMap_def
      encodeString_def UnmarshalMap_def mockDb_def mock_bad_item_def mock_put_fails_def
      mock_found_def mock_zero_def bad_item_def user_item_def alan_oliver_def new_User_def
      test_Unmarshal_def ErrorFailedToUnmarshalRecord_def ErrorCouldNotDynamoPutItem_def)


subsection \<open>Create: the existence check\<close>

text \<open>
  C2. When the body of a create request decodes and its email passes the format check,
  CreateUser returns \<open>user already exists\<close> exactly when FetchUser returns, with a nil
  error, a record whose Email is not empty. A fetched record with an empty Email does not
  block the create: CreateUser goes on to the save step.
\<close>

theorem CreateUser_already_exists_iff:
  assumes "json_Unmarshal (Body req) = (u, None)"
      and "IsEmailValid (Email u)"
  shows "(fst (CreateUser json_Unmarshal IsEmailValid req tableName dynaClient s)
            = Return (None, Some ErrorUserAlreadyExists)
          \<longleftrightarrow> (\<exists>e. fst (FetchUser (Email u) tableName dynaClient s) = Return (Some e, None)
                   \<and> Email e \<noteq> []))
         \<and> (\<forall>e s1. FetchUser (Email u) tableName dynaClient s = (Return (Some e, None), s1)
                   \<and> Email e = []
               \<longrightarrow> CreateUser json_Unmarshal IsEmailValid req tableName dynaClient s
                     = save_user u tableName dynaClient s1)"
proof -
  obtain r s1 where f: "FetchUser (Email u) tableName dynaClient s = (r, s1)"
    by (cases "FetchUser (Email u) tableName dynaClient s")
  show ?thesis
  proof (cases r)
    case Panic
    with assms f show ?thesis by (simp add: CreateUser_def)
  next
    case (Return p)
    obtain x err where p: "p = (x, err)" by (cases p)
    show ?thesis
    proof (cases err)
      case (Some e)
      with assms f Return p show ?thesis
        by (simp add: CreateUser_def error_messages_distinct [symmetric])
    next
      case None
      have "FetchUser (Email u) tableName dynaClient s = (Return (x, None), s1)"
        using f Return p None by simp
      from FetchUser_no_error_non_nil [OF this] obtain item where "x = Some item" ..
      with assms f Return p None show ?thesis
        using save_user_not_already_exists [of u tableName dynaClient s1]
        by (simp add: CreateUser_def)
    qed
  qed
qed

theorem CreateUser_already_exists_iff_witness:
  "test_Unmarshal (Body \<lparr>Body = ''alan.oliver'', QueryStringParameters = Map.empty\<rparr>) = (alan_oliver, None)
   \<and> test_IsEmailValid (Email alan_oliver)
   \<and> fst (FetchUser (Email alan_oliver) ''test'' (mockDb mock_found) []) = Return (Some alan_oliver, None)
   \<and> Email alan_oliver \<noteq> []
   \<and> fst (CreateUser test_Unmarshal test_IsEmailValid
            \<lparr>Body = ''alan.oliver'', QueryStringParameters = Map.empty\<rparr> ''test'' (mockDb mock_found) [])
       = Return (None, Some ErrorUserAlreadyExists)"
proof -
  let ?req = "\<lparr>Body = ''alan.oliver'', QueryStringParameters = Map.empty\<rparr>"
  have h1: "test_Unmarshal (Body ?req) = (alan_oliver, None)"
    by (simp add: test_Unmarshal_def)
  have h2: "test_IsEmailValid (Email alan_oliver)"
    by (simp add: test_IsEmailValid_def alan_oliver_def)
  have h3: "fst (FetchUser (Email alan_oliver) ''test'' (mockDb mock_found) []) = Return (Some alan_oliver, None)"
    by (simp add: FetchUser_mock_found)
  have h4: "Email alan_oliver \<noteq> []"
    by (simp add: alan_oliver_def)
  show ?thesis
    using CreateUser_already_exists_iff
      [where json_Unmarshal = test_Unmarshal and IsEmailValid = test_IsEmailValid and req = ?req
         and tableName = "''test''" and dynaClient = "mockDb mock_found" and s = "[]", OF h1 h2]
      h1 h2 h3 h4
    by blast
qed

subsection \<open>Decoding and the email check\<close>

text \<open>
  C3. A body that fails to decode makes both CreateUser and UpdateUser return
  \<open>invalid user data\<close>, with no store call. A body that decodes to a record whose email
  fails the format check makes CreateUser return \<open>invalid email\<close>, with no store call;
  UpdateUser makes no such check: it never returns \<open>invalid email\<close>, and when FetchUser
  returns with a nil error it goes on to the save step.
\<close>

theorem decode_failure_and_email_check:
  "(json_Unmarshal (Body req) = (u, Some err) \<longrightarrow>
       CreateUser json_Unmarshal IsEmailValid req tableName dynaClient s
         = (Return (None, Some ErrorInvalidUserData), s)
     \<and> UpdateUser json_Unmarshal req tableName dynaClient s
         = (Return (None, Some ErrorInvalidUserData), s))
   \<and> (json_Unmarshal (Body req) = (u, None) \<and> \<not> IsEmailValid (Email u) \<longrightarrow>
       CreateUser json_Unmarshal IsEmailValid req tableName dynaClient s
         = (Return (None, Some ErrorInvalidEmail), s)
     \<and> fst (UpdateUser json_Unmarshal req tableName dynaClient s)
         \<noteq> Return (None, Some ErrorInvalidEmail)
     \<and> (FetchUser (Email u) tableName dynaClient s = (Return (existingUser, None), s1) \<longrightarrow>
           UpdateUser json_Unmarshal req tableName dynaClient s = save_user u tableName dynaClient s1))"
proof (intro conjI impI)
  assume "json_Unmarshal (Body req) = (u, Some err)"
  then show "CreateUser json_Unmarshal IsEmailValid req tableName dynaClient s
         = (Return (None, Some ErrorInvalidUserData), s)"
    and "UpdateUser json_Unmarshal req tableName dynaClient s
         = (Return (None, Some ErrorInvalidUserData), s)"
    by (simp_all add: CreateUser_def UpdateUser_def)
next
  assume a: "json_Unmarshal (Body req) = (u, None) \<and> \<not> IsEmailValid (Email u)"
  then show "CreateUser json_Unmarshal IsEmailValid req tableName dynaClient s
         = (Return (None, Some ErrorInvalidEmail), s)"
    by (simp add: CreateUser_def)
  obtain r s2 where f: "FetchUser (Email u) tableName dynaClient s = (r, s2)"
    by (cases "FetchUser (Email u) tableName dynaClient s")
  show "fst (UpdateUser json_Unmarshal req tableName dynaClient s)
         \<noteq> Return (None, Some ErrorInvalidEmail)"
  proof (cases r)
    case Panic
    with a f show ?thesis by (simp add: UpdateUser_def)
  next
    case (Return p)
    obtain x e' where p: "p = (x, e')" by (cases p)
    show ?thesis
    proof (cases e')
      case (Some e)
      have "FetchUser (Email u) tableName dynaClient s = (Return (x, Some e), s2)"
        using f Return p Some by simp
      from FetchUser_error_values [OF this]
      have "e = ErrorFailedToFetchRecord \<or> e = ErrorFailedToUnmarshalRecord" ..
      with a f Return p Some show ?thesis
        by (auto simp: UpdateUser_def error_messages_distinct)
    next
      case None
      have "FetchUser (Email u) tableName dynaClient s = (Return (x, None), s2)"
        using f Return p None by simp
      from FetchUser_no_error_non_nil [OF this] obtain item where "x = Some item" ..
      with a f Return p None show ?thesis
        by (auto simp: UpdateUser_def update_condition_def save_user_cases
            error_messages_distinct [symmetric] split: prod.splits option.splits)
    qed
  qed
next
  assume a: "json_Unmarshal (Body req) = (u, None) \<and> \<not> IsEmailValid (Email u)"
    and f: "FetchUser (Email u) tableName dynaClient s = (Return (existingUser, None), s1)"
  obtain item where "existingUser = Some item"
    using FetchUser_no_error_non_nil [OF f] by blast
  with a f show "UpdateUser json_Unmarshal req tableName dynaClient s = save_user u tableName dynaClient s1"
    by (simp add: UpdateUser_def update_condition_def)
qed

theorem decode_failure_and_email_check_witness:
  "test_Unmarshal (Body \<lparr>Body = ''{'', QueryStringParameters = Map.empty\<rparr>)
     = (new_User, Some ''invalid character'')
   \<and> CreateUser test_Unmarshal test_IsEmailValid \<lparr>Body = ''{'', QueryStringParameters = Map.empty\<rparr>
        ''test'' (mockDb mock_found) [] = (Return (None, Some ErrorInvalidUserData), [])
   \<and> UpdateUser test_Unmarshal \<lparr>Body = ''{'', QueryStringParameters = Map.empty\<rparr>
        ''test'' (mockDb mock_found) [] = (Return (None, Some ErrorInvalidUserData), [])
   \<and> test_Unmarshal (Body \<lparr>Body = ''invalid-email'', QueryStringParameters = Map.empty\<rparr>)
     = (invalid_email_user, None)
   \<and> \<not> test_IsEmailValid (Email invalid_email_user)
   \<and> CreateUser test_Unmarshal test_IsEmailValid
        \<lparr>Body = ''invalid-email'', QueryStringParameters = Map.empty\<rparr>
        ''test'' (mockDb mock_found) [] = (Return (None, Some ErrorInvalidEmail), [])
   \<and> fst (UpdateUser test_Unmarshal \<lparr>Body = ''invalid-email'', QueryStringParameters = Map.empty\<rparr>
        ''test'' (mockDb mock_found) []) = Return (Some invalid_email_user, None)"
proof -
  let ?bad = "\<lparr>Body = ''{'', QueryStringParameters = Map.empty\<rparr>"
  let ?req = "\<lparr>Body = ''invalid-email'', QueryStringParameters = Map.empty\<rparr>"
  let ?log = "[GetItemCall \<lparr>GetItem_Key = [''email'' \<mapsto> AV_S (Email invalid_email_user)],
                 GetItem_TableName = ''test''\<rparr>]"
  have h1: "test_Unmarshal (Body ?bad) = (new_User, Some ''invalid character'')"
    by (simp add: test_Unmarshal_def)
  have h2: "test_Unmarshal (Body ?req) = (invalid_email_user, None)"
    by (simp add: test_Unmarshal_def)
  have h3: "\<not> test_IsEmailValid (Email invalid_email_user)"
    by (simp add: test_IsEmailValid_def invalid_email_user_def)
  have h4: "FetchUser (Email invalid_email_user) ''test'' (mockDb mock_found) []
              = (Return (Some alan_oliver, None), ?log)"
    by (simp add: FetchUser_mock_found)
  have put: "putErr mock_found = None"
    by (simp add: mock_found_def mock_zero_def)
  note a = decode_failure_and_email_check
      [where json_Unmarshal = test_Unmarshal and IsEmailValid = test_IsEmailValid and req = ?bad
         and u = new_User and err = "''invalid character''" and tableName = "''test''"
         and dynaClient = "mockDb mock_found" and s = "[]"]
  note b = decode_failure_and_email_check
      [where json_Unmarshal = test_Unmarshal and IsEmailValid = test_IsEmailValid and req = ?req
         and u = invalid_email_user and tableName = "''test''"
         and dynaClient = "mockDb mock_found" and s = "[]"
         and existingUser = "Some alan_oliver" and ?s1.0 = ?log]
  show ?thesis
    using a b h1 h2 h3 h4 by (simp add: save_user_mock_ok [OF put])
qed

subsection \<open>A failing existence check\<close>

text \<open>
  C4. When the GetItem call of the existence check returns an error, CreateUser returns
  the fixed error \<open>failed to fetch record\<close>. UpdateUser returns the error of FetchUser
  as it is, whatever it is; for a failing GetItem that error is FetchUser's
  \<open>failed to fetch record\<close>.
\<close>

theorem existence_check_failure_asymmetry:
  assumes "json_Unmarshal (Body req) = (u, None)"
  shows "(IsEmailValid (Email u)
          \<and> GetItem dynaClient
               \<lparr>GetItem_Key = [''email'' \<mapsto> AV_S (Email u)], GetItem_TableName = tableName\<rparr> s
             = ((out, Some e), s1) \<longrightarrow>
            CreateUser json_Unmarshal IsEmailValid req tableName dynaClient s
              = (Return (None, Some ErrorFailedToFetchRecord), s1))
         \<and> (FetchUser (Email u) tableName dynaClient s = (Return (x, Some err), s1) \<longrightarrow>
            UpdateUser json_Unmarshal req tableName dynaClient s = (Return (None, Some err), s1))
         \<and> (GetItem dynaClient
               \<lparr>GetItem_Key = [''email'' \<mapsto> AV_S (Email u)], GetItem_TableName = tableName\<rparr> s
             = ((out, Some e), s1) \<longrightarrow>
            UpdateUser json_Unmarshal req tableName dynaClient s
              = (Return (None, Some ErrorFailedToFetchRecord), s1))"
  using assms
  by (auto simp: CreateUser_def UpdateUser_def dest: FetchUser_GetItem_error)

theorem existence_check_failure_asymmetry_witness:
  "test_Unmarshal (Body \<lparr>Body = ''alan.oliver'', QueryStringParameters = Map.empty\<rparr>) = (alan_oliver, None)
   \<and> test_IsEmailValid (Email alan_oliver)
   \<and> fst (GetItem (mockDb mock_fetch_fails)
        \<lparr>GetItem_Key = [''email'' \<mapsto> AV_S (Email alan_oliver)], GetItem_TableName = ''test''\<rparr> [])
      = (None, Some ''fetch error'')
   \<and> fst (FetchUser (Email alan_oliver) ''test'' (mockDb mock_fetch_fails) [])
      = Return (None, Some ErrorFailedToFetchRecord)
   \<and> fst (CreateUser test_Unmarshal test_IsEmailValid
        \<lparr>Body = ''alan.oliver'', QueryStringParameters = Map.empty\<rparr> ''test'' (mockDb mock_fetch_fails) [])
      = Return (None, Some ErrorFailedToFetchRecord)
   \<and> fst (UpdateUser test_Unmarshal
        \<lparr>Body = ''alan.oliver'', QueryStringParameters = Map.empty\<rparr> ''test'' (mockDb mock_fetch_fails) [])
      = Return (None, Some ErrorFailedToFetchRecord)"
proof -
  let ?req = "\<lparr>Body = ''alan.oliver'', QueryStringParameters = Map.empty\<rparr>"
  let ?input = "\<lparr>GetItem_Key = [''email'' \<mapsto> AV_S (Email alan_oliver)], GetItem_TableName = ''test''\<rparr>"
  have h1: "test_Unmarshal (Body ?req) = (alan_oliver, None)"
    by (simp add: test_Unmarshal_def)
  have h2: "test_IsEmailValid (Email alan_oliver)"
    by (simp add: test_IsEmailValid_def alan_oliver_def)
  have h3: "GetItem (mockDb mock_fetch_fails) ?input [] = ((None, Some ''fetch error''), [GetItemCall ?input])"
    by (simp add: mockDb_def mock_fetch_fails_def mock_zero_def)
  have h4: "FetchUser (Email alan_oliver) ''test'' (mockDb mock_fetch_fails) []
      = (Return (None, Some ErrorFailedToFetchRecord), [GetItemCall ?input])"
    using FetchUser_GetItem_error [OF h3] .
  show ?thesis
    using existence_check_failure_asymmetry
      [where json_Unmarshal = test_Unmarshal and IsEmailValid = test_IsEmailValid and req = ?req
         and tableName = "''test''" and dynaClient = "mockDb mock_fetch_fails" and s = "[]"
         and out = None and e = "''fetch error''" and ?s1.0 = "[GetItemCall ?input]"
         and x = None and err = ErrorFailedToFetchRecord, OF h1]
      h1 h2 h3 h4
    by simp
qed

subsection \<open>Delete\<close>

text \<open>
  C8. DeleteUser makes one store call, the delete by the email key of the query string,
  and nothing before it: the store is left in the state that this one DeleteItem call
  leaves. The result is nil exactly when that call returns no error, and the error
  \<open>failed to delete record\<close> exactly when it returns one.
\<close>

theorem DeleteUser_single_unconditional_delete:
  fixes dynaClient :: "'s DynamoDBAPI"
  shows "(let email = (case QueryStringParameters req ''email'' of None \<Rightarrow> [] | Some e \<Rightarrow> e);
              input = \<lparr>DeleteItem_Key = [''email'' \<mapsto> AV_S email], DeleteItem_TableName = tableName\<rparr>
          in snd (DeleteUser req tableName dynaClient s) = snd (DeleteItem dynaClient input s)
             \<and> (fst (DeleteUser req tableName dynaClient s) = None
                  \<longleftrightarrow> snd (fst (DeleteItem dynaClient input s)) = None)
             \<and> (fst (DeleteUser req tableName dynaClient s) = Some ErrorFailedToDeleteRecord
                  \<longleftrightarrow> snd (fst (DeleteItem dynaClient input s)) \<noteq> None))"
  by (auto simp: DeleteUser_def Let_def split: prod.splits option.splits)

theorem DeleteUser_single_unconditional_delete_witness:
  "DeleteUser \<lparr>Body = [], QueryStringParameters = Map.empty\<rparr> ''test'' (mockDb mock_zero) []
     = (None, [DeleteItemCall \<lparr>DeleteItem_Key = [''email'' \<mapsto> AV_S []], DeleteItem_TableName = ''test''\<rparr>])
   \<and> DeleteUser \<lparr>Body = [], QueryStringParameters = [''email'' \<mapsto> ''alan.oliver@ecs.co.uk'']\<rparr> ''test''
         (mockDb (mock_zero\<lparr>deleteErr := Some ''delete error''\<rparr>)) []
     = (Some ErrorFailedToDeleteRecord,
        [DeleteItemCall \<lparr>DeleteItem_Key = [''email'' \<mapsto> AV_S ''alan.oliver@ecs.co.uk''],
                          DeleteItem_TableName = ''test''\<rparr>])"
proof -
  have del: "DeleteItem (mockDb m) input log = ((None, deleteErr m), log @ [DeleteItemCall input])"
    for m input log
    by (simp add: mockDb_def)
  note a = DeleteUser_single_unconditional_delete
      [where req = "\<lparr>Body = [], QueryStringParameters = Map.empty\<rparr>" and tableName = "''test''"
         and dynaClient = "mockDb mock_zero" and s = "[]"]
  note b = DeleteUser_single_unconditional_delete
      [where req = "\<lparr>Body = [], QueryStringParameters = [''email'' \<mapsto> ''alan.oliver@ecs.co.uk'']\<rparr>"
         and tableName = "''test''"
         and dynaClient = "mockDb (mock_zero\<lparr>deleteErr := Some ''delete error''\<rparr>)" and s = "[]"]
  show ?thesis
    using a b by (simp add: del mock_zero_def prod_eq_iff)
qed

subsection \<open>FetchUser on an empty item\<close>

text \<open>
  C5. For every email key, when GetItem succeeds with an empty attribute map, FetchUser
  returns, with a nil error, the record whose Email, FirstName and LastName are all the
  empty string: not-found is not an error. When GetItem returns an error, FetchUser
  returns \<open>failed to fetch record\<close>.
\<close>

theorem FetchUser_empty_item_is_empty_record:
  "(GetItem dynaClient \<lparr>GetItem_Key = [''email'' \<mapsto> AV_S email], GetItem_TableName = tableName\<rparr> s
      = ((Some r, None), s1) \<and> Item r = Map.empty \<longrightarrow>
    FetchUser email tableName dynaClient s
      = (Return (Some \<lparr>Email = [], FirstName = [], LastName = []\<rparr>, None), s1))
   \<and> (GetItem dynaClient \<lparr>GetItem_Key = [''email'' \<mapsto> AV_S email], GetItem_TableName = tableName\<rparr> s
      = ((out, Some e), s1) \<longrightarrow>
    FetchUser email tableName dynaClient s = (Return (None, Some ErrorFailedToFetchRecord), s1))"
  by (auto simp: FetchUser_GetItem_ok FetchUser_GetItem_error UnmarshalMap_empty new_User_def)

theorem FetchUser_empty_item_is_empty_record_witness:
  "GetItem (mockDb mock_empty)
      \<lparr>GetItem_Key = [''email'' \<mapsto> AV_S ''alan.oliver@ecs.co.uk''], GetItem_TableName = ''test''\<rparr> []
     = ((Some \<lparr>Item = Map.empty\<rparr>, None),
        [GetItemCall \<lparr>GetItem_Key = [''email'' \<mapsto> AV_S ''alan.oliver@ecs.co.uk''],
                       GetItem_TableName = ''test''\<rparr>])
   \<and> Item \<lparr>Item = Map.empty\<rparr> = Map.empty
   \<and> fst (FetchUser ''alan.oliver@ecs.co.uk'' ''test'' (mockDb mock_empty) [])
     = Return (Some \<lparr>Email = [], FirstName = [], LastName = []\<rparr>, None)
   \<and> fst (GetItem (mockDb mock_fetch_fails)
      \<lparr>GetItem_Key = [''email'' \<mapsto> AV_S ''alan.oliver@ecs.co.uk''], GetItem_TableName = ''test''\<rparr> [])
     = (None, Some ''fetch error'')
   \<and> fst (FetchUser ''alan.oliver@ecs.co.uk'' ''test'' (mockDb mock_fetch_fails) [])
     = Return (None, Some ErrorFailedToFetchRecord)"
proof -
  let ?input = "\<lparr>GetItem_Key = [''email'' \<mapsto> AV_S ''alan.oliver@ecs.co.uk''], GetItem_TableName = ''test''\<rparr>"
  have h1: "GetItem (mockDb mock_empty) ?input []
              = ((Some \<lparr>Item = Map.empty\<rparr>, None), [GetItemCall ?input])"
    by (simp add: mockDb_def mock_empty_def mock_zero_def)
  have h2: "GetItem (mockDb mock_fetch_fails) ?input []
              = ((None, Some ''fetch error''), [GetItemCall ?input])"
    by (simp add: mockDb_def mock_fetch_fails_def mock_zero_def)
  note a = FetchUser_empty_item_is_empty_record
      [where dynaClient = "mockDb mock_empty" and email = "''alan.oliver@ecs.co.uk''"
         and tableName = "''test''" and s = "[]" and r = "\<lparr>Item = Map.empty\<rparr>"
         and ?s1.0 = "[GetItemCall ?input]"]
  note b = FetchUser_empty_item_is_empty_record
      [where dynaClient = "mockDb mock_fetch_fails" and email = "''alan.oliver@ecs.co.uk''"
         and tableName = "''test''" and s = "[]" and out = None and e = "''fetch error''"
         and ?s1.0 = "[GetItemCall ?input]"]
  show ?thesis
    using a b h1 h2 by simp
qed

subsection \<open>A successful create\<close>

text \<open>
  C6. When the body decodes, the email passes the format check, FetchUser returns a
  record with an empty Email and the put returns no error, CreateUser returns the record
  parsed from the body, all three fields as parsed, and leaves the store in the state
  the PutItem call left: nothing is read after the write. (By
  \<open>FetchUser_single_GetItem\<close> the existence check itself is one GetItem call.)
\<close>

theorem CreateUser_returns_parsed_record:
  assumes "json_Unmarshal (Body req) = (u, None)"
      and "IsEmailValid (Email u)"
      and "FetchUser (Email u) tableName dynaClient s = (Return (Some e, None), s1)"
      and "Email e = []"
      and "PutItem dynaClient \<lparr>PutItem_Item = fst (MarshalMap u), PutItem_TableName = tableName\<rparr> s1
             = ((out, None), s2)"
  shows "CreateUser json_Unmarshal IsEmailValid req tableName dynaClient s
           = (Return (Some u, None), s2)"
  using assms by (simp add: CreateUser_def save_user_cases)

theorem CreateUser_returns_parsed_record_witness:
  "test_Unmarshal (Body \<lparr>Body = ''alan.oliver'', QueryStringParameters = Map.empty\<rparr>) = (alan_oliver, None)
   \<and> test_IsEmailValid (Email alan_oliver)
   \<and> Email new_User = []
   \<and> CreateUser test_Unmarshal test_IsEmailValid
        \<lparr>Body = ''alan.oliver'', QueryStringParameters = Map.empty\<rparr> ''test'' (mockDb mock_empty) []
      = (Return (Some \<lparr>Email = ''alan.oliver@ecs.co.uk'', FirstName = ''Alan'', LastName = ''Oliver''\<rparr>, None),
         [GetItemCall \<lparr>GetItem_Key = [''email'' \<mapsto> AV_S ''alan.oliver@ecs.co.uk''],
                        GetItem_TableName = ''test''\<rparr>,
          PutItemCall \<lparr>PutItem_Item = [''email'' \<mapsto> AV_S ''alan.oliver@ecs.co.uk'',
                                        ''firstName'' \<mapsto> AV_S ''Alan'', ''lastName'' \<mapsto> AV_S ''Oliver''],
                        PutItem_TableName = ''test''\<rparr>])"
proof -
  let ?req = "\<lparr>Body = ''alan.oliver'', QueryStringParameters = Map.empty\<rparr>"
  let ?get = "GetItemCall \<lparr>GetItem_Key = [''email'' \<mapsto> AV_S (Email alan_oliver)], GetItem_TableName = ''test''\<rparr>"
  let ?put = "\<lparr>PutItem_Item = fst (MarshalMap alan_oliver), PutItem_TableName = ''test''\<rparr>"
  have h1: "test_Unmarshal (Body ?req) = (alan_oliver, None)"
    by (simp add: test_Unmarshal_def)
  have h2: "test_IsEmailValid (Email alan_oliver)"
    by (simp add: test_IsEmailValid_def alan_oliver_def)
  have h3: "FetchUser (Email alan_oliver) ''test'' (mockDb mock_empty) []
              = (Return (Some new_User, None), [?get])"
    by (simp add: FetchUser_mock_empty)
  have h4: "Email new_User = []"
    by (simp add: new_User_def)
  have h5: "PutItem (mockDb mock_empty) ?put [?get] = ((None, None), [?get, PutItemCall ?put])"
    by (simp add: mockDb_def mock_empty_def mock_zero_def)
  have m: "fst (MarshalMap alan_oliver) =
             [''email'' \<mapsto> AV_S ''alan.oliver@ecs.co.uk'',
              ''firstName'' \<mapsto> AV_S ''Alan'', ''lastName'' \<mapsto> AV_S ''Oliver'']"
    by (simp add: MarshalMap_def encodeString_def alan_oliver_def)
  show ?thesis
    using CreateUser_returns_parsed_record
      [where json_Unmarshal = test_Unmarshal and IsEmailValid = test_IsEmailValid, OF h1 h2 h3 h4 h5]
      h1 h2 h4 m
    by (simp add: alan_oliver_def)
qed

subsection \<open>FetchAllUsers\<close>

text \<open>
  C7, as amended. For every successful scan whose items all unmarshal into a User,
  FetchAllUsers returns one record per scanned item, in the order of the scan, each the
  decoding of its item; for items that carry the three fields as string attributes the
  records have exactly those field values. A scan of zero items gives the empty
  sequence and no error. A scan with an item that does not unmarshal gives
  \<open>failed to unmarshal record\<close>, and a failing scan gives \<open>failed to fetch record\<close>.
\<close>

theorem FetchAllUsers_one_record_per_item:
  "(Scan dynaClient \<lparr>Scan_TableName = tableName\<rparr> s = ((Some r, None), s1)
      \<and> (\<forall>m \<in> set (Items r). snd (UnmarshalMap m new_User) = None) \<longrightarrow>
    FetchAllUsers tableName dynaClient s
      = (Return (Some (map (\<lambda>m. fst (UnmarshalMap m new_User)) (Items r)), None), s1))
   \<and> (Scan dynaClient \<lparr>Scan_TableName = tableName\<rparr> s = ((Some r, None), s1)
      \<and> Items r = map user_item us \<longrightarrow>
    FetchAllUsers tableName dynaClient s = (Return (Some us, None), s1))
   \<and> (Scan dynaClient \<lparr>Scan_TableName = tableName\<rparr> s = ((Some r, None), s1)
      \<and> Items r = [] \<longrightarrow>
    FetchAllUsers tableName dynaClient s = (Return (Some [], None), s1))
   \<and> (Scan dynaClient \<lparr>Scan_TableName = tableName\<rparr> s = ((Some r, None), s1)
      \<and> (\<exists>m \<in> set (Items r). snd (UnmarshalMap m new_User) \<noteq> None) \<longrightarrow>
    FetchAllUsers tableName dynaClient s = (Return (None, Some ErrorFailedToUnmarshalRecord), s1))
   \<and> (Scan dynaClient \<lparr>Scan_TableName = tableName\<rparr> s = ((out, Some e), s1) \<longrightarrow>
    FetchAllUsers tableName dynaClient s = (Return (None, Some ErrorFailedToFetchRecord), s1))"
proof (intro conjI impI)
  assume "Scan dynaClient \<lparr>Scan_TableName = tableName\<rparr> s = ((Some r, None), s1)
      \<and> (\<forall>m \<in> set (Items r). snd (UnmarshalMap m new_User) = None)"
  then show "FetchAllUsers tableName dynaClient s
      = (Return (Some (map (\<lambda>m. fst (UnmarshalMap m new_User)) (Items r)), None), s1)"
    by (simp add: FetchAllUsers_Scan_ok UnmarshalListOfMaps_ok)
next
  assume "Scan dynaClient \<lparr>Scan_TableName = tableName\<rparr> s = ((Some r, None), s1)
      \<and> Items r = map user_item us"
  then show "FetchAllUsers tableName dynaClient s = (Return (Some us, None), s1)"
    by (simp add: FetchAllUsers_Scan_ok UnmarshalListOfMaps_user_items)
next
  assume "Scan dynaClient \<lparr>Scan_TableName = tableName\<rparr> s = ((Some r, None), s1) \<and> Items r = []"
  then show "FetchAllUsers tableName dynaClient s = (Return (Some [], None), s1)"
    by (simp add: FetchAllUsers_Scan_ok)
next
  assume a: "Scan dynaClient \<lparr>Scan_TableName = tableName\<rparr> s = ((Some r, None), s1)
      \<and> (\<exists>m \<in> set (Items r). snd (UnmarshalMap m new_User) \<noteq> None)"
  then obtain us e' where "UnmarshalListOfMaps (Items r) = (us, Some e')"
    using UnmarshalListOfMaps_fail [of "Items r"] by blast
  with a show "FetchAllUsers tableName dynaClient s = (Return (None, Some ErrorFailedToUnmarshalRecord), s1)"
    by (simp add: FetchAllUsers_Scan_ok)
next
  assume "Scan dynaClient \<lparr>Scan_TableName = tableName\<rparr> s = ((out, Some e), s1)"
  then show "FetchAllUsers tableName dynaClient s = (Return (None, Some ErrorFailedToFetchRecord), s1)"
    by (simp add: FetchAllUsers_def split: option.splits)
qed

theorem FetchAllUsers_one_record_per_item_witness:
  "fst (Scan (mockDb mock_two_users) \<lparr>Scan_TableName = ''test''\<rparr> [])
     = (Some \<lparr>Items = map user_item [alan_shearer, alan_oliver]\<rparr>, None)
   \<and> snd (UnmarshalMap (user_item alan_shearer) new_User) = None
   \<and> snd (UnmarshalMap (user_item alan_oliver) new_User) = None
   \<and> fst (FetchAllUsers ''test'' (mockDb mock_two_users) []) = Return (Some [alan_shearer, alan_oliver], None)
   \<and> fst (Scan (mockDb (mock_zero\<lparr>scanRes := Some \<lparr>Items = []\<rparr>\<rparr>)) \<lparr>Scan_TableName = ''test''\<rparr> [])
     = (Some \<lparr>Items = []\<rparr>, None)
   \<and> fst (FetchAllUsers ''test'' (mockDb (mock_zero\<lparr>scanRes := Some \<lparr>Items = []\<rparr>\<rparr>)) [])
     = Return (Some [], None)
   \<and> fst (Scan (mockDb mock_bad_scan) \<lparr>Scan_TableName = ''test''\<rparr> []) = (Some \<lparr>Items = [bad_item]\<rparr>, None)
   \<and> snd (UnmarshalMap bad_item new_User) = Some ErrUnmarshalType
   \<and> fst (FetchAllUsers ''test'' (mockDb mock_bad_scan) []) = Return (None, Some ErrorFailedToUnmarshalRecord)
   \<and> fst (Scan (mockDb mock_scan_fails) \<lparr>Scan_TableName = ''test''\<rparr> []) = (None, Some ''scan error'')
   \<and> fst (FetchAllUsers ''test'' (mockDb mock_scan_fails) []) = Return (None, Some ErrorFailedToFetchRecord)"
proof -
  let ?in = "\<lparr>Scan_TableName = ''test''\<rparr>"
  let ?log = "[ScanCall ?in]"
  have sc: "Scan (mockDb m) ?in [] = ((scanRes m, scanErr m), ?log)" for m
    by (simp add: mockDb_def)
  have h1: "Scan (mockDb mock_two_users) ?in []
              = ((Some \<lparr>Items = map user_item [alan_shearer, alan_oliver]\<rparr>, None), ?log)"
    by (simp add: sc mock_two_users_def mock_zero_def)
  have h2: "\<forall>m \<in> set (map user_item [alan_shearer, alan_oliver]). snd (UnmarshalMap m new_User) = None"
    by (simp add: UnmarshalMap_user_item)
  have h3: "Scan (mockDb (mock_zero\<lparr>scanRes := Some \<lparr>Items = []\<rparr>\<rparr>)) ?in [] = ((Some \<lparr>Items = []\<rparr>, None), ?log)"
    by (simp add: sc mock_zero_def)
  have h4: "Scan (mockDb mock_bad_scan) ?in [] = ((Some \<lparr>Items = [bad_item]\<rparr>, None), ?log)"
    by (simp add: sc mock_bad_scan_def mock_zero_def)
  have h5: "\<exists>m \<in> set [bad_item]. snd (UnmarshalMap m new_User) \<noteq> None"
    by (simp add: UnmarshalMap_def bad_item_def)
  have h6: "Scan (mockDb mock_scan_fails) ?in [] = ((None, Some ''scan error''), ?log)"
    by (simp add: sc mock_scan_fails_def mock_zero_def)
  note a = FetchAllUsers_one_record_per_item
      [where dynaClient = "mockDb mock_two_users" and tableName = "''test''" and s = "[]"
         and r = "\<lparr>Items = map user_item [alan_shearer, alan_oliver]\<rparr>" and ?s1.0 = ?log
         and us = "[alan_shearer, alan_oliver]"]
  note b = FetchAllUsers_one_record_per_item
      [where dynaClient = "mockDb (mock_zero\<lparr>scanRes := Some \<lparr>Items = []\<rparr>\<rparr>)" and tableName = "''test''"
         and s = "[]" and r = "\<lparr>Items = []\<rparr>" and ?s1.0 = ?log]
  note c = FetchAllUsers_one_record_per_item
      [where dynaClient = "mockDb mock_bad_scan" and tableName = "''test''" and s = "[]"
         and r = "\<lparr>Items = [bad_item]\<rparr>" and ?s1.0 = ?log]
  note d = FetchAllUsers_one_record_per_item
      [where dynaClient = "mockDb mock_scan_fails" and tableName = "''test''" and s = "[]"
         and out = None and e = "''scan error''" and ?s1.0 = ?log]
  have A: "fst (FetchAllUsers ''test'' (mockDb mock_two_users) []) = Return (Some [alan_shearer, alan_oliver], None)"
    using a h1 h2 by (simp add: UnmarshalMap_user_item)
  have B: "fst (FetchAllUsers ''test'' (mockDb (mock_zero\<lparr>scanRes := Some \<lparr>Items = []\<rparr>\<rparr>)) [])
     = Return (Some [], None)"
    using b h3 by simp
  have C: "fst (FetchAllUsers ''test'' (mockDb mock_bad_scan) []) = Return (None, Some ErrorFailedToUnmarshalRecord)"
    using c h4 h5 by simp
  have D: "fst (FetchAllUsers ''test'' (mockDb mock_scan_fails) []) = Return (None, Some ErrorFailedToFetchRecord)"
    using d h6 by simp
  show ?thesis
    using A B C D h1 h3 h4 h6
    by (simp add: UnmarshalMap_user_item) (simp add: UnmarshalMap_def bad_item_def)
qed

text \<open>
  C7 as written, "for every successful scan result one record per scanned item", fails
  on a successful scan of one item whose email attribute is a boolean: the branch of
  lines 66-68 returns \<open>failed to unmarshal record\<close> and no record.
\<close>

theorem FetchAllUsers_undecodable_item_counterexample:
  "Scan (mockDb mock_bad_scan) \<lparr>Scan_TableName = ''test''\<rparr> []
     = ((Some \<lparr>Items = [[''email'' \<mapsto> AV_BOOL True]]\<rparr>, None), [ScanCall \<lparr>Scan_TableName = ''test''\<rparr>])
   \<and> FetchAllUsers ''test'' (mockDb mock_bad_scan) []
     = (Return (None, Some ErrorFailedToUnmarshalRecord), [ScanCall \<lparr>Scan_TableName = ''test''\<rparr>])"
proof -
  have sc: "Scan (mockDb mock_bad_scan) \<lparr>Scan_TableName = ''test''\<rparr> []
     = ((Some \<lparr>Items = [bad_item]\<rparr>, None), [ScanCall \<lparr>Scan_TableName = ''test''\<rparr>])"
    by (simp add: mockDb_def mock_bad_scan_def mock_zero_def)
  have "UnmarshalListOfMaps [bad_item] = ([new_User], Some ErrUnmarshalType)"
    by (simp add: UnmarshalMap_def bad_item_def)
  then show ?thesis
    using sc by (simp add: FetchAllUsers_Scan_ok [OF sc]) (simp add: bad_item_def)
qed

subsection \<open>The status of a failed delete\<close>

text \<open>
  C9. The claim has every service error surfaced with status 500. For DeleteUser the
  handler passes \<open>http.StatusBadRequest\<close>: a failing DeleteItem call is answered with
  status 400 and the body error \<open>failed to delete record\<close>.
\<close>

theorem handlers_DeleteUser_failure_status:
  "handlers_DeleteUser \<lparr>Body = [], QueryStringParameters = [''email'' \<mapsto> ''alan.oliver@ecs.co.uk'']\<rparr>
      ''test'' (mockDb mock_delete_fails) []
   = ((Some \<lparr>StatusCode = 400, ResponseBody = ErrorBody ''failed to delete record''\<rparr>, None),
      [DeleteItemCall \<lparr>DeleteItem_Key = [''email'' \<mapsto> AV_S ''alan.oliver@ecs.co.uk''],
                        DeleteItem_TableName = ''test''\<rparr>])"
  by (simp add: handlers_DeleteUser_def DeleteUser_def mockDb_def mock_delete_fails_def mock_zero_def
      apiResponse_def StatusBadRequest_def ErrorFailedToDeleteRecord_def)

text \<open>
  The handlers of create and update answer a service error with 500; the handler of
  delete answers with 400 whatever the client.
\<close>

lemma sibling_handlers_status_500:
  "fst (CreateUser json_Unmarshal IsEmailValid req tableName dynaClient s) = Return (x, Some err) \<Longrightarrow>
   fst (handlers_CreateUser json_Unmarshal IsEmailValid req tableName dynaClient s)
     = Return (Some \<lparr>StatusCode = 500, ResponseBody = ErrorBody err\<rparr>, None)"
  "fst (UpdateUser json_Unmarshal req tableName dynaClient s) = Return (x, Some err) \<Longrightarrow>
   fst (handlers_UpdateUser json_Unmarshal req tableName dynaClient s)
     = Return (Some \<lparr>StatusCode = 500, ResponseBody = ErrorBody err\<rparr>, None)"
  by (auto simp: handlers_CreateUser_def handlers_UpdateUser_def apiResponse_def
      StatusInternalServerError_def split: prod.splits)

lemma handlers_DeleteUser_status:
  "fst (DeleteUser req tableName dynaClient s) = Some err \<Longrightarrow>
   fst (handlers_DeleteUser req tableName dynaClient s)
     = (Some \<lparr>StatusCode = 400, ResponseBody = ErrorBody err\<rparr>, None)"
  by (auto simp: handlers_DeleteUser_def apiResponse_def StatusBadRequest_def split: prod.splits)

subsection \<open>The nil dereference of line 119\<close>

text \<open>
  C10. Whenever FetchUser returns with a nil error its record is not nil, so the
  condition of line 119 stops at its first conjunct, evaluates to false and never reads
  the Email of a nil record; and whenever FetchUser itself does not panic, UpdateUser
  does not panic.
\<close>

theorem UpdateUser_nil_dereference_unreachable:
  "(FetchUser email tableName dynaClient s = (Return (existingUser, None), s1) \<longrightarrow>
      existingUser \<noteq> None \<and> update_condition existingUser = Return False)
   \<and> (fst (FetchUser (Email (fst (json_Unmarshal (Body req)))) tableName dynaClient s) \<noteq> Panic \<longrightarrow>
      fst (UpdateUser json_Unmarshal req tableName dynaClient s) \<noteq> Panic)"
proof (intro conjI impI)
  assume f: "FetchUser email tableName dynaClient s = (Return (existingUser, None), s1)"
  from FetchUser_no_error_non_nil [OF f] obtain item where "existingUser = Some item" ..
  then show "existingUser \<noteq> None" and "update_condition existingUser = Return False"
    by (simp_all add: update_condition_def)
next
  assume np: "fst (FetchUser (Email (fst (json_Unmarshal (Body req)))) tableName dynaClient s) \<noteq> Panic"
  obtain u de where d: "json_Unmarshal (Body req) = (u, de)"
    by (cases "json_Unmarshal (Body req)")
  obtain r s2 where f: "FetchUser (Email u) tableName dynaClient s = (r, s2)"
    by (cases "FetchUser (Email u) tableName dynaClient s")
  show "fst (UpdateUser json_Unmarshal req tableName dynaClient s) \<noteq> Panic"
  proof (cases de)
    case (Some a)
    with d show ?thesis by (simp add: UpdateUser_def)
  next
    case None
    from np d f obtain p where r: "r = Return p" by (cases r) simp_all
    obtain x e' where p: "p = (x, e')" by (cases p)
    show ?thesis
    proof (cases e')
      case (Some a)
      with d None f r p show ?thesis by (simp add: UpdateUser_def)
    next
      case n: None
      have "FetchUser (Email u) tableName dynaClient s = (Return (x, None), s2)"
        using f r p n by simp
      from FetchUser_no_error_non_nil [OF this] obtain item where "x = Some item" ..
      with d None f r p n show ?thesis
        by (auto simp: UpdateUser_def update_condition_def save_user_cases
            split: prod.splits option.splits)
    qed
  qed
qed

theorem UpdateUser_nil_dereference_unreachable_witness:
  "FetchUser (Email alan_oliver) ''test'' (mockDb mock_empty) [] =
     (Return (Some new_User, None),
      [GetItemCall \<lparr>GetItem_Key = [''email'' \<mapsto> AV_S (Email alan_oliver)], GetItem_TableName = ''test''\<rparr>])
   \<and> update_condition (Some new_User) = Return False
   \<and> fst (UpdateUser test_Unmarshal \<lparr>Body = ''alan.oliver'', QueryStringParameters = Map.empty\<rparr>
        ''test'' (mockDb mock_empty) []) \<noteq> Panic"
proof -
  let ?req = "\<lparr>Body = ''alan.oliver'', QueryStringParameters = Map.empty\<rparr>"
  let ?log = "[GetItemCall \<lparr>GetItem_Key = [''email'' \<mapsto> AV_S (Email alan_oliver)], GetItem_TableName = ''test''\<rparr>]"
  have h1: "FetchUser (Email alan_oliver) ''test'' (mockDb mock_empty) [] = (Return (Some new_User, None), ?log)"
    by (simp add: FetchUser_mock_empty)
  have h2: "fst (test_Unmarshal (Body ?req)) = alan_oliver"
    by (simp add: test_Unmarshal_def)
  show ?thesis
    using UpdateUser_nil_dereference_unreachable
      [where email = "Email alan_oliver" and tableName = "''test''" and dynaClient = "mockDb mock_empty"
         and s = "[]" and existingUser = "Some new_User" and ?s1.0 = ?log
         and json_Unmarshal = test_Unmarshal and req = ?req]
      h1 h2
    by simp
qed

end
